theory Spec2Isabelle
  imports Main
begin

section \<open>JavaScript values and strings\<close>

text \<open>
  The handlers receive \<^verbatim>\<open>request.params.arguments\<close> typed \<^verbatim>\<open>any\<close> and the driver hands
  back rows typed \<^verbatim>\<open>any[]\<close>, so the model works on JSON-shaped JavaScript values.
  \<^item> A string is the UTF-8 text of the JavaScript string. The only character the source
    looks for is \<^verbatim>\<open>/\<close>, which never occurs inside a multi-byte sequence, so splitting
    and concatenation agree with JavaScript. Indexing a string by position and
    iterating it are exact for ASCII text.
  \<^item> A number is carried as the text \<^verbatim>\<open>Number::toString\<close> prints for it (\<^verbatim>\<open>1\<close>, \<^verbatim>\<open>-2.5\<close>,
    \<^verbatim>\<open>1e+21\<close>, \<^verbatim>\<open>NaN\<close>): the source never computes with a number of its input, it only
    prints it.
  \<^item> An object lists its own enumerable properties in the engine's enumeration order
    (the order \<^verbatim>\<open>Object.keys\<close> reports); a property is looked up by its first entry.
\<close>

datatype jsval =
    JUndefined
  | JNull
  | JBool bool
  | JNum string
  | JStr string
  | JArr "jsval list"
  | JObj "(string \<times> jsval) list"

text \<open>
  What a \<^verbatim>\<open>catch (error)\<close> block can tell about the value it caught:
  \<^verbatim>\<open>error instanceof Error\<close> and, if so, \<^verbatim>\<open>error.message\<close>. A \<^verbatim>\<open>TypeError\<close> is raised
  by the language itself; the wording of its message is the engine's.
\<close>

datatype exn =
    Error string
  | TypeError string
  | NonError

fun nullish :: "jsval \<Rightarrow> bool" where
  "nullish JUndefined = True"
| "nullish JNull = True"
| "nullish _ = False"

fun has_key :: "string \<Rightarrow> (string \<times> jsval) list \<Rightarrow> bool" where
  "has_key k [] = False"
| "has_key k ((k', v) # kvs) = (k = k' \<or> has_key k kvs)"

fun lookup :: "string \<Rightarrow> (string \<times> jsval) list \<Rightarrow> jsval" where
  "lookup k [] = JUndefined"
| "lookup k ((k', v) # kvs) = (if k = k' then v else lookup k kvs)"

text \<open>
  Property read \<^verbatim>\<open>v.k\<close> and destructuring \<^verbatim>\<open>const { k } = v\<close>: a \<^verbatim>\<open>TypeError\<close> on
  \<^verbatim>\<open>undefined\<close> and \<^verbatim>\<open>null\<close>, the property (or \<^verbatim>\<open>undefined\<close>) on an object. The source
  reads only the names \<^verbatim>\<open>query\<close>, \<^verbatim>\<open>sql\<close>, \<^verbatim>\<open>tableName\<close>, \<^verbatim>\<open>columns\<close>, \<^verbatim>\<open>data\<close>, \<^verbatim>\<open>url\<close>,
  \<^verbatim>\<open>username\<close>, \<^verbatim>\<open>password\<close>, \<^verbatim>\<open>name\<close>, \<^verbatim>\<open>type\<close> and \<^verbatim>\<open>table_name\<close>, none of which is a
  built-in property of an array, string, number or boolean: there the read gives
  \<^verbatim>\<open>undefined\<close>.
\<close>

definition msg_nullish_read :: string where
  "msg_nullish_read = ''Cannot read properties of undefined or null''"

fun get_prop :: "jsval \<Rightarrow> string \<Rightarrow> exn + jsval" where
  "get_prop JUndefined k = Inl (TypeError msg_nullish_read)"
| "get_prop JNull k = Inl (TypeError msg_nullish_read)"
| "get_prop (JObj kvs) k = Inr (lookup k kvs)"
| "get_prop _ k = Inr JUndefined"

subsection \<open>Array lengths and indices as strings\<close>

text \<open>
  \<^verbatim>\<open>data.length\<close> and the index keys of an array are integers below \<open>2^32\<close>, which
  JavaScript prints as plain decimal numerals.
\<close>

definition digit_char :: "nat \<Rightarrow> char" where
  "digit_char n = ''0123456789'' ! (n mod 10)"

fun nat_to_string :: "nat \<Rightarrow> string" where
  "nat_to_string n =
     (if n < 10 then [digit_char n] else nat_to_string (n div 10) @ [digit_char n])"

declare nat_to_string.simps [simp del]

subsection \<open>ToString, template literals and Array.prototype.join\<close>

definition msg_not_primitive :: string where
  "msg_not_primitive = ''Cannot convert object to primitive value''"

text \<open>
  \<^verbatim>\<open>ToString\<close> as a template literal \<^verbatim>\<open>`${v}`\<close> applies it. An array converts through
  \<^verbatim>\<open>Array.prototype.join\<close> with a comma. A plain object converts to
  \<^verbatim>\<open>[object Object]\<close> through \<^verbatim>\<open>Object.prototype.toString\<close>, unless it has an own
  property \<^verbatim>\<open>toString\<close>: a JSON value is never callable, \<^verbatim>\<open>valueOf\<close> gives back the
  object, and the conversion raises a \<^verbatim>\<open>TypeError\<close>.
  \<^verbatim>\<open>join\<close> turns \<^verbatim>\<open>undefined\<close> and \<^verbatim>\<open>null\<close> elements into the empty string.
\<close>

fun to_string :: "jsval \<Rightarrow> exn + string"
  and join_with :: "string \<Rightarrow> jsval list \<Rightarrow> exn + string"
where
  "to_string JUndefined = Inr ''undefined''"
| "to_string JNull = Inr ''null''"
| "to_string (JBool b) = Inr (if b then ''true'' else ''false'')"
| "to_string (JNum t) = Inr t"
| "to_string (JStr s) = Inr s"
| "to_string (JArr xs) = join_with '','' xs"
| "to_string (JObj kvs) =
     (if has_key ''toString'' kvs then Inl (TypeError msg_not_primitive)
      else Inr ''[object Object]'')"
| "join_with sep [] = Inr []"
| "join_with sep (x # xs) =
     (case (if nullish x then Inr [] else to_string x) of
        Inl e \<Rightarrow> Inl e
      | Inr a \<Rightarrow>
          (if xs = [] then Inr a
           else (case join_with sep xs of
                   Inl e \<Rightarrow> Inl e
                 | Inr b \<Rightarrow> Inr (a @ sep @ b))))"

text \<open>\<^verbatim>\<open>join\<close> on an array of strings, as \<^verbatim>\<open>columns.map(...).join(', ')\<close> has it.\<close>

fun join_strings :: "string \<Rightarrow> string list \<Rightarrow> string" where
  "join_strings sep [] = []"
| "join_strings sep [a] = a"
| "join_strings sep (a # b # bs) = a @ sep @ join_strings sep (b # bs)"

subsection \<open>String.prototype.split and array indexing\<close>

fun split_on :: "char \<Rightarrow> string \<Rightarrow> string list" where
  "split_on c [] = [[]]"
| "split_on c (x # xs) =
     (if x = c then [] # split_on c xs
      else (case split_on c xs of
              [] \<Rightarrow> [[x]]
            | y # ys \<Rightarrow> (x # y) # ys))"

text \<open>\<^verbatim>\<open>arr[i]\<close> on an array of strings: \<^verbatim>\<open>undefined\<close> past the end.\<close>

definition index_or_undefined :: "string list \<Rightarrow> nat \<Rightarrow> jsval" where
  "index_or_undefined xs i = (if i < length xs then JStr (xs ! i) else JUndefined)"

subsection \<open>JSON.stringify(value, null, 2)\<close>

definition hex_char :: "nat \<Rightarrow> char" where
  "hex_char n = ''0123456789abcdef'' ! (n mod 16)"

text \<open>\<^verbatim>\<open>QuoteJSONString\<close>, one character at a time.\<close>

definition json_escape_char :: "char \<Rightarrow> string" where
  "json_escape_char c =
     (if c = CHR 0x22 then [CHR 0x5C, CHR 0x22]
      else if c = CHR 0x5C then [CHR 0x5C, CHR 0x5C]
      else if c = CHR 0x08 then [CHR 0x5C, CHR ''b'']
      else if c = CHR 0x09 then [CHR 0x5C, CHR ''t'']
      else if c = CHR 0x0A then [CHR 0x5C, CHR ''n'']
      else if c = CHR 0x0C then [CHR 0x5C, CHR ''f'']
      else if c = CHR 0x0D then [CHR 0x5C, CHR ''r'']
      else if (of_char c :: nat) < 32
        then [CHR 0x5C, CHR ''u'', CHR ''0'', CHR ''0'',
              hex_char (of_char c div 16), hex_char (of_char c)]
      else [c])"

definition json_quote :: "string \<Rightarrow> string" where
  "json_quote s = CHR 0x22 # concat (map json_escape_char s) @ [CHR 0x22]"

definition newline :: string where
  "newline = [CHR 0x0A]"

text \<open>The numbers that are not finite, as \<^verbatim>\<open>Number::toString\<close> prints them.\<close>

definition non_finite :: "string \<Rightarrow> bool" where
  "non_finite t = (t = ''NaN'' \<or> t = ''Infinity'' \<or> t = ''-Infinity'')"

text \<open>
  \<^verbatim>\<open>SerializeJSONProperty\<close> with the gap of two spaces; the first argument is the current
  indentation. A finite number is written as \<^verbatim>\<open>Number::toString\<close> prints it, any other
  number as \<^verbatim>\<open>null\<close>. An \<^verbatim>\<open>undefined\<close> array element is written \<^verbatim>\<open>null\<close>; an object
  member whose value is \<^verbatim>\<open>undefined\<close> is left out.
\<close>

fun json_value :: "string \<Rightarrow> jsval \<Rightarrow> string"
  and json_elements :: "string \<Rightarrow> jsval list \<Rightarrow> string list"
  and json_members :: "string \<Rightarrow> (string \<times> jsval) list \<Rightarrow> string list"
where
  "json_value ind JUndefined = ''null''"
| "json_value ind JNull = ''null''"
| "json_value ind (JBool b) = (if b then ''true'' else ''false'')"
| "json_value ind (JNum t) = (if non_finite t then ''null'' else t)"
| "json_value ind (JStr s) = json_quote s"
| "json_value ind (JArr xs) =
     (if xs = [] then ''[]''
      else ''['' @ newline @ (ind @ ''  '')
           @ join_strings ('','' @ newline @ (ind @ ''  '')) (json_elements (ind @ ''  '') xs)
           @ newline @ ind @ '']'')"
| "json_value ind (JObj kvs) =
     (if json_members (ind @ ''  '') kvs = [] then ''{}''
      else ''{'' @ newline @ (ind @ ''  '')
           @ join_strings ('','' @ newline @ (ind @ ''  '')) (json_members (ind @ ''  '') kvs)
           @ newline @ ind @ ''}'')"
| "json_elements ind [] = []"
| "json_elements ind (x # xs) = json_value ind x # json_elements ind xs"
| "json_members ind [] = []"
| "json_members ind ((k, v) # kvs) =
     (if v = JUndefined then json_members ind kvs
      else (json_quote k @ '': '' @ json_value ind v) # json_members ind kvs)"

text \<open>
  \<^verbatim>\<open>JSON.stringify(value, null, 2)\<close>: \<^verbatim>\<open>undefined\<close> (here \<open>None\<close>) when the value is
  \<^verbatim>\<open>undefined\<close>, the text otherwise.
\<close>

definition json_stringify :: "jsval \<Rightarrow> string option" where
  "json_stringify v = (if v = JUndefined then None else Some (json_value [] v))"

section \<open>The PostgreSQL driver and the trace of its calls\<close>

text \<open>
  The driver (\<^verbatim>\<open>pg\<close>) and the database behind it are not part of the repository: they are a
  parameter of the model. A driver acts on a world \<open>'w\<close> (the database, the pool, the
  network); each call either throws (rejects) or returns, and changes the world.
  \<^item> \<open>drv_pool_connect\<close>: \<^verbatim>\<open>await pool.connect()\<close>, giving a client.
  \<^item> \<open>drv_client_new\<close>: \<^verbatim>\<open>new Client(config)\<close>. The constructor reads its configuration
    (it parses the connection string) and opens nothing: it leaves the world as it is,
    and \<open>Some e\<close> is the exception it throws.
  \<^item> \<open>drv_client_connect\<close>: \<^verbatim>\<open>await client.connect()\<close> on the client built from the
    configuration, giving the handle the later calls on that client carry.
  \<^item> \<open>drv_client_query\<close>: \<^verbatim>\<open>await client.query(text, values)\<close>. For a text of one
    statement the driver resolves to one result with its \<^verbatim>\<open>rows\<close>; for a text of several
    statements it resolves to an array of results, which has no \<^verbatim>\<open>rows\<close> property.
  \<^item> \<open>drv_client_release\<close>: \<^verbatim>\<open>client.release()\<close>, which does not raise on a client released
    once.
  \<^item> \<open>drv_client_end\<close>: \<^verbatim>\<open>await client.end()\<close>.
\<close>

type_synonym handle = nat

datatype query_result =
    Result "jsval list"
  | Results "jsval list list"

text \<open>\<^verbatim>\<open>result.rows\<close>\<close>

fun rows_of :: "query_result \<Rightarrow> jsval" where
  "rows_of (Result rows) = JArr rows"
| "rows_of (Results rs) = JUndefined"

record 'w driver =
  drv_pool_connect :: "'w \<Rightarrow> (exn + handle) \<times> 'w"
  drv_client_new :: "jsval \<Rightarrow> 'w \<Rightarrow> exn option"
  drv_client_connect :: "jsval \<Rightarrow> 'w \<Rightarrow> (exn + handle) \<times> 'w"
  drv_client_query ::
    "handle \<Rightarrow> jsval \<Rightarrow> jsval list \<Rightarrow> 'w \<Rightarrow> (exn + query_result) \<times> 'w"
  drv_client_release :: "handle \<Rightarrow> 'w \<Rightarrow> 'w"
  drv_client_end :: "handle \<Rightarrow> 'w \<Rightarrow> (exn + unit) \<times> 'w"

text \<open>
  Every call that reaches the pool or the server is logged, in order. A connect logs the
  client it obtained, or \<open>None\<close> when it failed. The constructor reaches neither and is
  not logged.
\<close>

datatype event =
    PoolConnect "handle option"
  | ClientConnect jsval "handle option"
  | Query handle jsval "jsval list"
  | Release handle
  | End handle

type_synonym 'w st = "'w \<times> event list"

fun pool_connect :: "'w driver \<Rightarrow> 'w st \<Rightarrow> (exn + handle) \<times> 'w st" where
  "pool_connect d (w, tr) =
     (case drv_pool_connect d w of
        (Inl e, w') \<Rightarrow> (Inl e, (w', tr @ [PoolConnect None]))
      | (Inr h, w') \<Rightarrow> (Inr h, (w', tr @ [PoolConnect (Some h)])))"

text \<open>\<^verbatim>\<open>new Client(config)\<close> in the state \<open>s\<close>.\<close>

definition client_new :: "'w driver \<Rightarrow> jsval \<Rightarrow> 'w st \<Rightarrow> exn option" where
  "client_new d cfg s = drv_client_new d cfg (fst s)"

fun client_connect :: "'w driver \<Rightarrow> jsval \<Rightarrow> 'w st \<Rightarrow> (exn + handle) \<times> 'w st" where
  "client_connect d cfg (w, tr) =
     (case drv_client_connect d cfg w of
        (Inl e, w') \<Rightarrow> (Inl e, (w', tr @ [ClientConnect cfg None]))
      | (Inr h, w') \<Rightarrow> (Inr h, (w', tr @ [ClientConnect cfg (Some h)])))"

fun client_query ::
  "'w driver \<Rightarrow> handle \<Rightarrow> jsval \<Rightarrow> jsval list \<Rightarrow> 'w st \<Rightarrow> (exn + query_result) \<times> 'w st"
  where
  "client_query d h q ps (w, tr) =
     (case drv_client_query d h q ps w of
        (r, w') \<Rightarrow> (r, (w', tr @ [Query h q ps])))"

fun client_release :: "'w driver \<Rightarrow> handle \<Rightarrow> 'w st \<Rightarrow> 'w st" where
  "client_release d h (w, tr) = (drv_client_release d h w, tr @ [Release h])"

fun client_end :: "'w driver \<Rightarrow> handle \<Rightarrow> 'w st \<Rightarrow> (exn + unit) \<times> 'w st" where
  "client_end d h (w, tr) =
     (case drv_client_end d h w of
        (r, w') \<Rightarrow> (r, (w', tr @ [End h])))"

section \<open>The response envelope\<close>

text \<open>The literals of the source, as UTF-8 text.\<close>

definition msg_unknown_tool :: string where
  "msg_unknown_tool = [CHR 0xE6, CHR 0x9C, CHR 0xAA, CHR 0xE7, CHR 0x9F, CHR 0xA5, CHR 0xE5,
     CHR 0xB7, CHR 0xA5, CHR 0xE5, CHR 0x85, CHR 0xB7, CHR 0x3A, CHR 0x20]"

definition msg_connect_ok :: string where
  "msg_connect_ok = [CHR 0xE6, CHR 0x95, CHR 0xB0, CHR 0xE6, CHR 0x8D, CHR 0xAE, CHR 0xE5,
     CHR 0xBA, CHR 0x93, CHR 0xE8, CHR 0xBF, CHR 0x9E, CHR 0xE6, CHR 0x8E, CHR 0xA5, CHR 0xE6,
     CHR 0x88, CHR 0x90, CHR 0xE5, CHR 0x8A, CHR 0x9F]"

definition msg_connect_failed :: string where
  "msg_connect_failed = [CHR 0xE6, CHR 0x95, CHR 0xB0, CHR 0xE6, CHR 0x8D, CHR 0xAE, CHR 0xE5,
     CHR 0xBA, CHR 0x93, CHR 0xE8, CHR 0xBF, CHR 0x9E, CHR 0xE6, CHR 0x8E, CHR 0xA5, CHR 0xE5,
     CHR 0xA4, CHR 0xB1, CHR 0xE8, CHR 0xB4, CHR 0xA5, CHR 0x3A, CHR 0x20]"

definition msg_unknown_error :: string where
  "msg_unknown_error = [CHR 0xE6, CHR 0x9C, CHR 0xAA, CHR 0xE7, CHR 0x9F, CHR 0xA5, CHR 0xE9,
     CHR 0x94, CHR 0x99, CHR 0xE8, CHR 0xAF, CHR 0xAF]"

definition msg_query_failed :: string where
  "msg_query_failed = [CHR 0xE6, CHR 0x9F, CHR 0xA5, CHR 0xE8, CHR 0xAF, CHR 0xA2, CHR 0xE6,
     CHR 0x89, CHR 0xA7, CHR 0xE8, CHR 0xA1, CHR 0x8C, CHR 0xE5, CHR 0xA4, CHR 0xB1, CHR 0xE8,
     CHR 0xB4, CHR 0xA5, CHR 0x3A, CHR 0x20]"

definition msg_table_pre :: string where
  "msg_table_pre = [CHR 0xE8, CHR 0xA1, CHR 0xA8, CHR 0x20]"

definition msg_table_post :: string where
  "msg_table_post = [CHR 0x20, CHR 0xE5, CHR 0x88, CHR 0x9B, CHR 0xE5, CHR 0xBB, CHR 0xBA,
     CHR 0xE6, CHR 0x88, CHR 0x90, CHR 0xE5, CHR 0x8A, CHR 0x9F]"

definition msg_create_failed :: string where
  "msg_create_failed = [CHR 0xE5, CHR 0x88, CHR 0x9B, CHR 0xE5, CHR 0xBB, CHR 0xBA, CHR 0xE8,
     CHR 0xA1, CHR 0xA8, CHR 0xE5, CHR 0xA4, CHR 0xB1, CHR 0xE8, CHR 0xB4, CHR 0xA5, CHR 0x3A,
     CHR 0x20]"

definition msg_insert_pre :: string where
  "msg_insert_pre = [CHR 0xE6, CHR 0x88, CHR 0x90, CHR 0xE5, CHR 0x8A, CHR 0x9F, CHR 0xE5,
     CHR 0x90, CHR 0x91, CHR 0x20]"

definition msg_insert_mid :: string where
  "msg_insert_mid = [CHR 0x20, CHR 0xE6, CHR 0x8F, CHR 0x92, CHR 0xE5, CHR 0x85, CHR 0xA5,
     CHR 0x20]"

definition msg_insert_post :: string where
  "msg_insert_post = [CHR 0x20, CHR 0xE6, CHR 0x9D, CHR 0xA1, CHR 0xE6, CHR 0x95, CHR 0xB0,
     CHR 0xE6, CHR 0x8D, CHR 0xAE]"

definition msg_insert_failed :: string where
  "msg_insert_failed = [CHR 0xE6, CHR 0x8F, CHR 0x92, CHR 0xE5, CHR 0x85, CHR 0xA5, CHR 0xE6,
     CHR 0x95, CHR 0xB0, CHR 0xE6, CHR 0x8D, CHR 0xAE, CHR 0xE5, CHR 0xA4, CHR 0xB1, CHR 0xE8,
     CHR 0xB4, CHR 0xA5, CHR 0x3A, CHR 0x20]"

definition msg_schema_name :: string where
  "msg_schema_name = [CHR 0x22, CHR 0x20, CHR 0xE6, CHR 0x95, CHR 0xB0, CHR 0xE6, CHR 0x8D,
     CHR 0xAE, CHR 0xE5, CHR 0xBA, CHR 0x93, CHR 0xE6, CHR 0x9E, CHR 0xB6, CHR 0xE6, CHR 0x9E,
     CHR 0x84]"

text \<open>
  The repository holds four builds of the server:
  \<^item> \<open>PooledFull\<close>: pool from the environment, resources, four tools (\<^verbatim>\<open>execute_query\<close>
    reads \<^verbatim>\<open>query\<close>);
  \<^item> \<open>PooledQuery\<close>: pool from the environment, resources, three tools (\<^verbatim>\<open>query\<close> reads
    \<^verbatim>\<open>sql\<close>), and its compiled output;
  \<^item> \<open>PerCall\<close>: a client per call, configured from the call's \<^verbatim>\<open>url\<close>, \<^verbatim>\<open>username\<close>,
    \<^verbatim>\<open>password\<close>;
  \<^item> \<open>EnvClient\<close>: a client per call, configured from the environment.
\<close>

datatype variant = PooledFull | PooledQuery | PerCall | EnvClient

text \<open>
  \<open>item_text\<close> is \<open>None\<close> when the \<^verbatim>\<open>text\<close> property holds \<^verbatim>\<open>undefined\<close>; \<open>isError\<close> is
  \<open>None\<close> when the property is absent; \<open>meta\<close> is \<^verbatim>\<open>_meta\<close>.
\<close>

record content_item =
  item_type :: string
  item_text :: "string option"


record tool_response =
  content :: "content_item list"
  isError :: "bool option"
  meta :: "jsval option"

definition response_meta :: "variant \<Rightarrow> jsval option" where
  "response_meta v = (if v = PooledQuery then None else Some (JObj []))"

definition success_response :: "variant \<Rightarrow> string option \<Rightarrow> tool_response" where
  "success_response v t =
     \<lparr>content = [\<lparr>item_type = ''text'', item_text = t\<rparr>],
      isError = None, meta = response_meta v\<rparr>"

text \<open>\<^verbatim>\<open>error instanceof Error ? error.message : ...\<close>\<close>

fun caught_message :: "exn \<Rightarrow> string" where
  "caught_message (Error m) = m"
| "caught_message (TypeError m) = m"
| "caught_message NonError = msg_unknown_error"

definition failure_response :: "variant \<Rightarrow> string \<Rightarrow> exn \<Rightarrow> tool_response" where
  "failure_response v prefix e =
     \<lparr>content = [\<lparr>item_type = ''text'', item_text = Some (prefix @ caught_message e)\<rparr>],
      isError = Some True, meta = response_meta v\<rparr>"

text \<open>A response whose content is exactly one item, of type \<^verbatim>\<open>text\<close>.\<close>

definition single_text :: "tool_response \<Rightarrow> bool" where
  "single_text r = (length (content r) = 1 \<and> item_type (hd (content r)) = ''text'')"

section \<open>Building the SQL text\<close>

definition msg_not_function :: string where
  "msg_not_function = ''columns.map is not a function''"

definition msg_not_iterable :: string where
  "msg_not_iterable = ''data is not iterable''"

fun map_exn :: "('a \<Rightarrow> exn + 'b) \<Rightarrow> 'a list \<Rightarrow> exn + 'b list" where
  "map_exn f [] = Inr []"
| "map_exn f (x # xs) =
     (case f x of
        Inl e \<Rightarrow> Inl e
      | Inr y \<Rightarrow> (case map_exn f xs of Inl e \<Rightarrow> Inl e | Inr ys \<Rightarrow> Inr (y # ys)))"

text \<open>
  \<^verbatim>\<open>columns.map(f)\<close>: only an array has a callable \<^verbatim>\<open>map\<close>; on \<^verbatim>\<open>undefined\<close> and \<^verbatim>\<open>null\<close>
  the property read raises, on any other JSON value the call does.
\<close>

fun array_map :: "(jsval \<Rightarrow> exn + 'b) \<Rightarrow> jsval \<Rightarrow> exn + 'b list" where
  "array_map f (JArr xs) = map_exn f xs"
| "array_map f JUndefined = Inl (TypeError msg_nullish_read)"
| "array_map f JNull = Inl (TypeError msg_nullish_read)"
| "array_map f _ = Inl (TypeError msg_not_function)"

text \<open>\<^verbatim>\<open>`${col.name} ${col.type}`\<close>\<close>

definition column_definition :: "jsval \<Rightarrow> exn + string" where
  "column_definition col =
     (case get_prop col ''name'' of
        Inl e \<Rightarrow> Inl e
      | Inr n \<Rightarrow>
          (case to_string n of
             Inl e \<Rightarrow> Inl e
           | Inr ns \<Rightarrow>
               (case get_prop col ''type'' of
                  Inl e \<Rightarrow> Inl e
                | Inr t \<Rightarrow>
                    (case to_string t of
                       Inl e \<Rightarrow> Inl e
                     | Inr ts \<Rightarrow> Inr (ns @ '' '' @ ts)))))"

text \<open>
  \<^verbatim>\<open>columns.map(col => `${col.name} ${col.type}`).join(', ')\<close> and
  \<^verbatim>\<open>`CREATE TABLE ${tableName} (${columnDefinitions})`\<close>
\<close>

definition create_table_statement :: "jsval \<Rightarrow> jsval \<Rightarrow> exn + string" where
  "create_table_statement tableName columns =
     (case array_map column_definition columns of
        Inl e \<Rightarrow> Inl e
      | Inr defs \<Rightarrow>
          (case to_string tableName of
             Inl e \<Rightarrow> Inl e
           | Inr t \<Rightarrow> Inr (''CREATE TABLE '' @ t @ '' ('' @ join_strings '', '' defs @ '')'')))"

text \<open>
  The statement as the specification words it, to compare \<open>create_table_statement\<close> with:
  the \<^verbatim>\<open>name type\<close> pairs joined by a comma and a space, nothing quoted or escaped.
  \<open>column_named col (n, t)\<close> says the column object \<open>col\<close> has the strings \<open>n\<close> and \<open>t\<close> as
  its \<^verbatim>\<open>name\<close> and \<^verbatim>\<open>type\<close>.
\<close>

definition spec_create_table :: "string \<Rightarrow> (string \<times> string) list \<Rightarrow> string" where
  "spec_create_table tableName cols =
     ''CREATE TABLE '' @ tableName @ '' (''
     @ join_strings '', '' (map (\<lambda>nt. fst nt @ '' '' @ snd nt) cols) @ '')''"

definition column_named :: "jsval \<Rightarrow> string \<times> string \<Rightarrow> bool" where
  "column_named col nt =
     (get_prop col ''name'' = Inr (JStr (fst nt)) \<and> get_prop col ''type'' = Inr (JStr (snd nt)))"

text \<open>
  \<^verbatim>\<open>Object.keys\<close> and \<^verbatim>\<open>Object.values\<close>: a \<^verbatim>\<open>TypeError\<close> on \<^verbatim>\<open>undefined\<close> and \<^verbatim>\<open>null\<close>, the
  own properties of an object, the indices and elements of an array or a string, nothing
  for a number or a boolean.
\<close>

fun own_keys :: "jsval \<Rightarrow> exn + string list" where
  "own_keys JUndefined = Inl (TypeError msg_nullish_read)"
| "own_keys JNull = Inl (TypeError msg_nullish_read)"
| "own_keys (JObj kvs) = Inr (map fst kvs)"
| "own_keys (JArr xs) = Inr (map nat_to_string [0..<length xs])"
| "own_keys (JStr s) = Inr (map nat_to_string [0..<length s])"
| "own_keys _ = Inr []"

fun own_values :: "jsval \<Rightarrow> exn + jsval list" where
  "own_values JUndefined = Inl (TypeError msg_nullish_read)"
| "own_values JNull = Inl (TypeError msg_nullish_read)"
| "own_values (JObj kvs) = Inr (map snd kvs)"
| "own_values (JArr xs) = Inr xs"
| "own_values (JStr s) = Inr (map (\<lambda>c. JStr [c]) s)"
| "own_values _ = Inr []"

text \<open>\<^verbatim>\<open>val => typeof val === 'string' ? `'${val}'` : val\<close>\<close>

fun insert_value :: "jsval \<Rightarrow> jsval" where
  "insert_value (JStr s) = JStr ([CHR 0x27] @ s @ [CHR 0x27])"
| "insert_value v = v"

text \<open>
  The loop body's text: \<^verbatim>\<open>Object.keys(record).join(', ')\<close>, the mapped
  \<^verbatim>\<open>Object.values(record)\<close> joined by \<^verbatim>\<open>', '\<close>, and
  \<^verbatim>\<open>`INSERT INTO ${tableName} (${columns}) VALUES (${values})`\<close>.
\<close>

definition insert_statement :: "jsval \<Rightarrow> jsval \<Rightarrow> exn + string" where
  "insert_statement tableName record =
     (case own_keys record of
        Inl e \<Rightarrow> Inl e
      | Inr ks \<Rightarrow>
          (case own_values record of
             Inl e \<Rightarrow> Inl e
           | Inr vs \<Rightarrow>
               (case join_with '', '' (map insert_value vs) of
                  Inl e \<Rightarrow> Inl e
                | Inr vals \<Rightarrow>
                    (case to_string tableName of
                       Inl e \<Rightarrow> Inl e
                     | Inr t \<Rightarrow>
                         Inr (''INSERT INTO '' @ t @ '' ('' @ join_strings '', '' ks
                              @ '') VALUES ('' @ vals @ '')'')))))"

text \<open>
  The statement as the specification words it, to compare \<open>insert_statement\<close> with: the
  keys joined by a comma and a space, and each value written by \<open>spec_value_text\<close>: a
  string between single quotes, any other scalar (a number, a boolean, \<^verbatim>\<open>null\<close>) put in
  unquoted as it is written. \<open>plain\<close> holds of the strings, numbers and booleans.
\<close>

fun scalar :: "jsval \<Rightarrow> bool" where
  "scalar JNull = True"
| "scalar (JBool b) = True"
| "scalar (JNum t) = True"
| "scalar (JStr s) = True"
| "scalar _ = False"

fun plain :: "jsval \<Rightarrow> bool" where
  "plain (JBool b) = True"
| "plain (JNum t) = True"
| "plain (JStr s) = True"
| "plain _ = False"

fun spec_value_text :: "jsval \<Rightarrow> string" where
  "spec_value_text (JStr s) = [CHR 0x27] @ s @ [CHR 0x27]"
| "spec_value_text (JNum t) = t"
| "spec_value_text (JBool b) = (if b then ''true'' else ''false'')"
| "spec_value_text JNull = ''null''"
| "spec_value_text _ = []"

definition spec_insert_statement :: "string \<Rightarrow> (string \<times> jsval) list \<Rightarrow> string" where
  "spec_insert_statement tableName kvs =
     ''INSERT INTO '' @ tableName @ '' ('' @ join_strings '', '' (map fst kvs)
     @ '') VALUES ('' @ join_strings '', '' (map (\<lambda>kv. spec_value_text (snd kv)) kvs)
     @ '')''"

text \<open>
  \<^verbatim>\<open>for (const record of data)\<close>: the elements of an array, the characters of a string;
  nothing else among JSON values is iterable.
\<close>

fun iterate :: "jsval \<Rightarrow> exn + jsval list" where
  "iterate (JArr xs) = Inr xs"
| "iterate (JStr s) = Inr (map (\<lambda>c. JStr [c]) s)"
| "iterate _ = Inl (TypeError msg_not_iterable)"

section \<open>The executors\<close>

definition sql_begin :: string where
  "sql_begin = ''BEGIN TRANSACTION READ ONLY''"

definition sql_rollback :: string where
  "sql_rollback = ''ROLLBACK''"


text \<open>The property \<^verbatim>\<open>executeQuery\<close> destructures from its arguments.\<close>

definition query_field :: "variant \<Rightarrow> string" where
  "query_field v = (if v = PooledQuery then ''sql'' else ''query'')"

text \<open>
  The configuration given to \<^verbatim>\<open>new Client(...)\<close>: \<^verbatim>\<open>{ connectionString: url, user: username,
  password }\<close> destructured from the arguments in the per-call build (a \<^verbatim>\<open>TypeError\<close> when
  the arguments are \<^verbatim>\<open>undefined\<close>), \<^verbatim>\<open>{ connectionString: this.connectionString }\<close>
  elsewhere.
\<close>

definition client_config :: "variant \<Rightarrow> string \<Rightarrow> jsval \<Rightarrow> exn + jsval" where
  "client_config v cs args =
     (if v = PerCall then
        (case get_prop args ''url'' of
           Inl e \<Rightarrow> Inl e
         | Inr url \<Rightarrow>
             (case get_prop args ''username'' of
                Inl e \<Rightarrow> Inl e
              | Inr username \<Rightarrow>
                  (case get_prop args ''password'' of
                     Inl e \<Rightarrow> Inl e
                   | Inr password \<Rightarrow>
                       Inr (JObj [(''connectionString'', url), (''user'', username),
                                  (''password'', password)]))))
      else Inr (JObj [(''connectionString'', JStr cs)]))"

text \<open>
  \<^verbatim>\<open>testConnection\<close>. Before the \<^verbatim>\<open>try\<close>: the per-call build destructures its arguments,
  and every build constructs the client; an exception there leaves the executor. The
  \<^verbatim>\<open>try\<close> block, \<open>testConnection_try\<close>, connects and ends; its \<^verbatim>\<open>catch\<close> builds the
  error response.
\<close>

definition testConnection_try ::
  "variant \<Rightarrow> 'w driver \<Rightarrow> jsval \<Rightarrow> 'w st \<Rightarrow> tool_response \<times> 'w st" where
  "testConnection_try v d cfg s =
     (case client_connect d cfg s of
        (Inl e, s1) \<Rightarrow> (failure_response v msg_connect_failed e, s1)
      | (Inr h, s1) \<Rightarrow>
          (case client_end d h s1 of
             (Inl e, s2) \<Rightarrow> (failure_response v msg_connect_failed e, s2)
           | (Inr _, s2) \<Rightarrow> (success_response v (Some msg_connect_ok), s2)))"

definition testConnection ::
  "variant \<Rightarrow> string \<Rightarrow> 'w driver \<Rightarrow> jsval \<Rightarrow> 'w st \<Rightarrow> (exn + tool_response) \<times> 'w st" where
  "testConnection v cs d args s =
     (case client_config v cs args of
        Inl e \<Rightarrow> (Inl e, s)
      | Inr cfg \<Rightarrow>
          (case client_new d cfg s of
             Some e \<Rightarrow> (Inl e, s)
           | None \<Rightarrow>
               (case testConnection_try v d cfg s of
                  (r, s1) \<Rightarrow> (Inr r, s1))))"

text \<open>
  \<^verbatim>\<open>executeQuery\<close> of the pooled builds. The \<^verbatim>\<open>try\<close> block is \<open>executeQuery_try\<close>; the
  \<^verbatim>\<open>finally\<close> block sends \<^verbatim>\<open>ROLLBACK\<close>, ignores its outcome
  (\<^verbatim>\<open>.catch(console.warn)\<close>) and releases the client. Destructuring and
  \<^verbatim>\<open>pool.connect()\<close> stand before the \<^verbatim>\<open>try\<close>. The text of the success response is
  \<^verbatim>\<open>JSON.stringify(result.rows, null, 2)\<close>.
\<close>

definition executeQuery_try ::
  "variant \<Rightarrow> 'w driver \<Rightarrow> handle \<Rightarrow> jsval \<Rightarrow> 'w st \<Rightarrow> tool_response \<times> 'w st" where
  "executeQuery_try v d h q s =
     (case client_query d h (JStr sql_begin) [] s of
        (Inl e, s1) \<Rightarrow> (failure_response v msg_query_failed e, s1)
      | (Inr _, s1) \<Rightarrow>
          (case client_query d h q [] s1 of
             (Inl e, s2) \<Rightarrow> (failure_response v msg_query_failed e, s2)
           | (Inr result, s2) \<Rightarrow>
               (success_response v (json_stringify (rows_of result)), s2)))"

definition executeQuery_pool ::
  "variant \<Rightarrow> 'w driver \<Rightarrow> jsval \<Rightarrow> 'w st \<Rightarrow> (exn + tool_response) \<times> 'w st" where
  "executeQuery_pool v d args s =
     (case get_prop args (query_field v) of
        Inl e \<Rightarrow> (Inl e, s)
      | Inr q \<Rightarrow>
          (case pool_connect d s of
             (Inl e, s1) \<Rightarrow> (Inl e, s1)
           | (Inr h, s1) \<Rightarrow>
               (case executeQuery_try v d h q s1 of
                  (r, s2) \<Rightarrow>
                    (case client_query d h (JStr sql_rollback) [] s2 of
                       (_, s3) \<Rightarrow> (Inr r, client_release d h s3)))))"

text \<open>
  \<^verbatim>\<open>executeQuery\<close> of the client-per-call builds: destructuring and the constructor before
  the \<^verbatim>\<open>try\<close>; connect, query and end inside it, no transaction, and a \<^verbatim>\<open>catch\<close> that only
  builds the response.
\<close>

definition executeQuery_client_try ::
  "variant \<Rightarrow> 'w driver \<Rightarrow> jsval \<Rightarrow> jsval \<Rightarrow> 'w st \<Rightarrow> tool_response \<times> 'w st" where
  "executeQuery_client_try v d cfg q s =
     (case client_connect d cfg s of
        (Inl e, s1) \<Rightarrow> (failure_response v msg_query_failed e, s1)
      | (Inr h, s1) \<Rightarrow>
          (case client_query d h q [] s1 of
             (Inl e, s2) \<Rightarrow> (failure_response v msg_query_failed e, s2)
           | (Inr result, s2) \<Rightarrow>
               (case client_end d h s2 of
                  (Inl e, s3) \<Rightarrow> (failure_response v msg_query_failed e, s3)
                | (Inr _, s3) \<Rightarrow>
                    (success_response v (json_stringify (rows_of result)), s3))))"

definition executeQuery_client ::
  "variant \<Rightarrow> string \<Rightarrow> 'w driver \<Rightarrow> jsval \<Rightarrow> 'w st \<Rightarrow> (exn + tool_response) \<times> 'w st" where
  "executeQuery_client v cs d args s =
     (case get_prop args ''query'' of
        Inl e \<Rightarrow> (Inl e, s)
      | Inr q \<Rightarrow>
          (case client_config v cs args of
             Inl e \<Rightarrow> (Inl e, s)
           | Inr cfg \<Rightarrow>
               (case client_new d cfg s of
                  Some e \<Rightarrow> (Inl e, s)
                | None \<Rightarrow>
                    (case executeQuery_client_try v d cfg q s of
                       (r, s1) \<Rightarrow> (Inr r, s1)))))"

text \<open>
  \<^verbatim>\<open>createTable\<close> of the pooled builds: the \<^verbatim>\<open>try\<close> block builds the statement, runs it
  and builds the confirmation; \<^verbatim>\<open>finally\<close> releases the client.
\<close>

definition createTable_try ::
  "variant \<Rightarrow> 'w driver \<Rightarrow> handle \<Rightarrow> jsval \<Rightarrow> jsval \<Rightarrow> 'w st \<Rightarrow> tool_response \<times> 'w st" where
  "createTable_try v d h tableName columns s =
     (case create_table_statement tableName columns of
        Inl e \<Rightarrow> (failure_response v msg_create_failed e, s)
      | Inr q \<Rightarrow>
          (case client_query d h (JStr q) [] s of
             (Inl e, s1) \<Rightarrow> (failure_response v msg_create_failed e, s1)
           | (Inr _, s1) \<Rightarrow>
               (case to_string tableName of
                  Inl e \<Rightarrow> (failure_response v msg_create_failed e, s1)
                | Inr t \<Rightarrow>
                    (success_response v (Some (msg_table_pre @ t @ msg_table_post)), s1))))"

definition createTable_pool ::
  "variant \<Rightarrow> 'w driver \<Rightarrow> jsval \<Rightarrow> 'w st \<Rightarrow> (exn + tool_response) \<times> 'w st" where
  "createTable_pool v d args s =
     (case get_prop args ''tableName'' of
        Inl e \<Rightarrow> (Inl e, s)
      | Inr tableName \<Rightarrow>
          (case get_prop args ''columns'' of
             Inl e \<Rightarrow> (Inl e, s)
           | Inr columns \<Rightarrow>
               (case pool_connect d s of
                  (Inl e, s1) \<Rightarrow> (Inl e, s1)
                | (Inr h, s1) \<Rightarrow>
                    (case createTable_try v d h tableName columns s1 of
                       (r, s2) \<Rightarrow> (Inr r, client_release d h s2)))))"

text \<open>
  \<^verbatim>\<open>createTable\<close> of the client-per-call builds: destructuring and the constructor before
  the \<^verbatim>\<open>try\<close>; connect, statement, query, end and the confirmation inside it.
\<close>

definition createTable_client_try ::
  "variant \<Rightarrow> 'w driver \<Rightarrow> jsval \<Rightarrow> jsval \<Rightarrow> jsval \<Rightarrow> 'w st \<Rightarrow> tool_response \<times> 'w st" where
  "createTable_client_try v d cfg tableName columns s =
     (case client_connect d cfg s of
        (Inl e, s1) \<Rightarrow> (failure_response v msg_create_failed e, s1)
      | (Inr h, s1) \<Rightarrow>
          (case create_table_statement tableName columns of
             Inl e \<Rightarrow> (failure_response v msg_create_failed e, s1)
           | Inr q \<Rightarrow>
               (case client_query d h (JStr q) [] s1 of
                  (Inl e, s2) \<Rightarrow> (failure_response v msg_create_failed e, s2)
                | (Inr _, s2) \<Rightarrow>
                    (case client_end d h s2 of
                       (Inl e, s3) \<Rightarrow> (failure_response v msg_create_failed e, s3)
                     | (Inr _, s3) \<Rightarrow>
                         (case to_string tableName of
                            Inl e \<Rightarrow> (failure_response v msg_create_failed e, s3)
                          | Inr t \<Rightarrow>
                              (success_response v
                                 (Some (msg_table_pre @ t @ msg_table_post)), s3))))))"

definition createTable_client ::
  "variant \<Rightarrow> string \<Rightarrow> 'w driver \<Rightarrow> jsval \<Rightarrow> 'w st \<Rightarrow> (exn + tool_response) \<times> 'w st" where
  "createTable_client v cs d args s =
     (case get_prop args ''tableName'' of
        Inl e \<Rightarrow> (Inl e, s)
      | Inr tableName \<Rightarrow>
          (case get_prop args ''columns'' of
             Inl e \<Rightarrow> (Inl e, s)
           | Inr columns \<Rightarrow>
               (case client_config v cs args of
                  Inl e \<Rightarrow> (Inl e, s)
                | Inr cfg \<Rightarrow>
                    (case client_new d cfg s of
                       Some e \<Rightarrow> (Inl e, s)
                     | None \<Rightarrow>
                         (case createTable_client_try v d cfg tableName columns s of
                            (r, s1) \<Rightarrow> (Inr r, s1))))))"

text \<open>
  One pass of the \<^verbatim>\<open>for\<close> loop of \<^verbatim>\<open>insertData\<close>: build the statement and run it. \<open>Some e\<close> is
  the exception that leaves the loop.
\<close>

definition insert_record ::
  "'w driver \<Rightarrow> handle \<Rightarrow> jsval \<Rightarrow> jsval \<Rightarrow> 'w st \<Rightarrow> exn option \<times> 'w st" where
  "insert_record d h tableName record s =
     (case insert_statement tableName record of
        Inl e \<Rightarrow> (Some e, s)
      | Inr q \<Rightarrow>
          (case client_query d h (JStr q) [] s of
             (Inl e, s1) \<Rightarrow> (Some e, s1)
           | (Inr _, s1) \<Rightarrow> (None, s1)))"

fun insert_loop ::
  "'w driver \<Rightarrow> handle \<Rightarrow> jsval \<Rightarrow> jsval list \<Rightarrow> 'w st \<Rightarrow> exn option \<times> 'w st" where
  "insert_loop d h tableName [] s = (None, s)"
| "insert_loop d h tableName (record # records) s =
     (case insert_record d h tableName record s of
        (Some e, s1) \<Rightarrow> (Some e, s1)
      | (None, s1) \<Rightarrow> insert_loop d h tableName records s1)"

text \<open>
  \<^verbatim>\<open>insertData\<close> of the pooled build: the \<^verbatim>\<open>try\<close> block is the loop and the confirmation
  \<^verbatim>\<open>`... ${tableName} ... ${data.length} ...`\<close>; \<^verbatim>\<open>finally\<close> releases the client.
\<close>

definition insertData_try ::
  "variant \<Rightarrow> 'w driver \<Rightarrow> handle \<Rightarrow> jsval \<Rightarrow> jsval \<Rightarrow> 'w st \<Rightarrow> tool_response \<times> 'w st" where
  "insertData_try v d h tableName data s =
     (case iterate data of
        Inl e \<Rightarrow> (failure_response v msg_insert_failed e, s)
      | Inr records \<Rightarrow>
          (case insert_loop d h tableName records s of
             (Some e, s1) \<Rightarrow> (failure_response v msg_insert_failed e, s1)
           | (None, s1) \<Rightarrow>
               (case to_string tableName of
                  Inl e \<Rightarrow> (failure_response v msg_insert_failed e, s1)
                | Inr t \<Rightarrow>
                    (success_response v
                       (Some (msg_insert_pre @ t @ msg_insert_mid
                              @ nat_to_string (length records) @ msg_insert_post)), s1))))"

definition insertData_pool ::
  "variant \<Rightarrow> 'w driver \<Rightarrow> jsval \<Rightarrow> 'w st \<Rightarrow> (exn + tool_response) \<times> 'w st" where
  "insertData_pool v d args s =
     (case get_prop args ''tableName'' of
        Inl e \<Rightarrow> (Inl e, s)
      | Inr tableName \<Rightarrow>
          (case get_prop args ''data'' of
             Inl e \<Rightarrow> (Inl e, s)
           | Inr data \<Rightarrow>
               (case pool_connect d s of
                  (Inl e, s1) \<Rightarrow> (Inl e, s1)
                | (Inr h, s1) \<Rightarrow>
                    (case insertData_try v d h tableName data s1 of
                       (r, s2) \<Rightarrow> (Inr r, client_release d h s2)))))"

text \<open>
  \<^verbatim>\<open>insertData\<close> of the client-per-call builds: destructuring and the constructor before
  the \<^verbatim>\<open>try\<close>; connect, the loop, end and the confirmation inside it.
\<close>

definition insertData_client_try ::
  "variant \<Rightarrow> 'w driver \<Rightarrow> jsval \<Rightarrow> jsval \<Rightarrow> jsval \<Rightarrow> 'w st \<Rightarrow> tool_response \<times> 'w st" where
  "insertData_client_try v d cfg tableName data s =
     (case client_connect d cfg s of
        (Inl e, s1) \<Rightarrow> (failure_response v msg_insert_failed e, s1)
      | (Inr h, s1) \<Rightarrow>
          (case iterate data of
             Inl e \<Rightarrow> (failure_response v msg_insert_failed e, s1)
           | Inr records \<Rightarrow>
               (case insert_loop d h tableName records s1 of
                  (Some e, s2) \<Rightarrow> (failure_response v msg_insert_failed e, s2)
                | (None, s2) \<Rightarrow>
                    (case client_end d h s2 of
                       (Inl e, s3) \<Rightarrow> (failure_response v msg_insert_failed e, s3)
                     | (Inr _, s3) \<Rightarrow>
                         (case to_string tableName of
                            Inl e \<Rightarrow> (failure_response v msg_insert_failed e, s3)
                          | Inr t \<Rightarrow>
                              (success_response v
                                 (Some (msg_insert_pre @ t @ msg_insert_mid
                                        @ nat_to_string (length records)
                                        @ msg_insert_post)), s3))))))"

definition insertData_client ::
  "variant \<Rightarrow> string \<Rightarrow> 'w driver \<Rightarrow> jsval \<Rightarrow> 'w st \<Rightarrow> (exn + tool_response) \<times> 'w st" where
  "insertData_client v cs d args s =
     (case get_prop args ''tableName'' of
        Inl e \<Rightarrow> (Inl e, s)
      | Inr tableName \<Rightarrow>
          (case get_prop args ''data'' of
             Inl e \<Rightarrow> (Inl e, s)
           | Inr data \<Rightarrow>
               (case client_config v cs args of
                  Inl e \<Rightarrow> (Inl e, s)
                | Inr cfg \<Rightarrow>
                    (case client_new d cfg s of
                       Some e \<Rightarrow> (Inl e, s)
                     | None \<Rightarrow>
                         (case insertData_client_try v d cfg tableName data s of
                            (r, s1) \<Rightarrow> (Inr r, s1))))))"

section \<open>The tool dispatcher\<close>

text \<open>
  What leaves a request handler as a rejected promise: an exception that escaped an
  executor, or the \<^verbatim>\<open>McpError\<close> the dispatcher builds with \<^verbatim>\<open>ErrorCode.MethodNotFound\<close>.
\<close>

datatype error_code = MethodNotFound

datatype fault =
    Uncaught exn
  | McpError error_code string

fun rethrow :: "(exn + 'a) \<times> 's \<Rightarrow> (fault + 'a) \<times> 's" where
  "rethrow (Inl e, s) = (Inl (Uncaught e), s)"
| "rethrow (Inr x, s) = (Inr x, s)"

text \<open>
  The \<^verbatim>\<open>switch\<close> of the \<^verbatim>\<open>CallToolRequestSchema\<close> handler in each build. The three-tool
  build throws a plain \<^verbatim>\<open>Error\<close> in its \<^verbatim>\<open>default\<close> branch.
\<close>

definition call_tool ::
  "variant \<Rightarrow> string \<Rightarrow> 'w driver \<Rightarrow> string \<Rightarrow> jsval \<Rightarrow> 'w st \<Rightarrow> (fault + tool_response) \<times> 'w st"
  where
  "call_tool v cs d name args s =
     (case v of
        PooledFull \<Rightarrow>
          (if name = ''test_connection'' then rethrow (testConnection v cs d args s)
           else if name = ''execute_query'' then rethrow (executeQuery_pool v d args s)
           else if name = ''create_table'' then rethrow (createTable_pool v d args s)
           else if name = ''insert_data'' then rethrow (insertData_pool v d args s)
           else (Inl (McpError MethodNotFound (msg_unknown_tool @ name)), s))
      | PooledQuery \<Rightarrow>
          (if name = ''query'' then rethrow (executeQuery_pool v d args s)
           else if name = ''test_connection'' then rethrow (testConnection v cs d args s)
           else if name = ''create_table'' then rethrow (createTable_pool v d args s)
           else (Inl (Uncaught (Error (msg_unknown_tool @ name))), s))
      | _ \<Rightarrow>
          (if name = ''test_connection'' then rethrow (testConnection v cs d args s)
           else if name = ''execute_query'' then rethrow (executeQuery_client v cs d args s)
           else if name = ''create_table'' then rethrow (createTable_client v cs d args s)
           else if name = ''insert_data'' then rethrow (insertData_client v cs d args s)
           else (Inl (McpError MethodNotFound (msg_unknown_tool @ name)), s)))"










section \<open>The schema catalog\<close>

record resource =
  res_uri :: string
  res_mimeType :: string
  res_name :: string

record resource_contents =
  rc_uri :: string
  rc_mimeType :: string
  rc_text :: "string option"

definition sql_list_tables :: string where
  "sql_list_tables =
     ''SELECT table_name FROM information_schema.tables WHERE table_schema = ''
     @ [CHR 0x27] @ ''public'' @ [CHR 0x27]"

definition sql_columns :: string where
  "sql_columns =
     ''SELECT column_name, data_type FROM information_schema.columns WHERE table_name = $1''"

text \<open>The arrow function of \<^verbatim>\<open>result.rows.map\<close> in the \<^verbatim>\<open>ListResourcesRequestSchema\<close> handler.\<close>

definition resource_of_row :: "jsval \<Rightarrow> exn + resource" where
  "resource_of_row row =
     (case get_prop row ''table_name'' of
        Inl e \<Rightarrow> Inl e
      | Inr t \<Rightarrow>
          (case to_string t of
             Inl e \<Rightarrow> Inl e
           | Inr ts \<Rightarrow>
               Inr \<lparr>res_uri = ''postgres://'' @ ts @ ''/schema'',
                    res_mimeType = ''application/json'',
                    res_name = [CHR 0x22] @ ts @ msg_schema_name\<rparr>))"

text \<open>
  The descriptor the listing builds for a table name, and what it means for a catalog row
  to carry a table name.
\<close>

definition descriptor :: "string \<Rightarrow> resource" where
  "descriptor t =
     \<lparr>res_uri = ''postgres://'' @ t @ ''/schema'', res_mimeType = ''application/json'',
      res_name = [CHR 0x22] @ t @ msg_schema_name\<rparr>"

definition row_of_table :: "jsval \<Rightarrow> string \<Rightarrow> bool" where
  "row_of_table row t = (get_prop row ''table_name'' = Inr (JStr t))"

text \<open>
  Both resource handlers have \<^verbatim>\<open>try\<close> and \<^verbatim>\<open>finally\<close> but no \<^verbatim>\<open>catch\<close>: the client is
  released and the exception leaves the handler.
\<close>

definition list_resources :: "'w driver \<Rightarrow> 'w st \<Rightarrow> (exn + resource list) \<times> 'w st" where
  "list_resources d s =
     (case pool_connect d s of
        (Inl e, s1) \<Rightarrow> (Inl e, s1)
      | (Inr h, s1) \<Rightarrow>
          (case client_query d h (JStr sql_list_tables) [] s1 of
             (Inl e, s2) \<Rightarrow> (Inl e, client_release d h s2)
           | (Inr result, s2) \<Rightarrow>
               (array_map resource_of_row (rows_of result), client_release d h s2)))"

text \<open>\<^verbatim>\<open>request.params.uri.split('/')[2]\<close>\<close>

definition table_of_uri :: "string \<Rightarrow> jsval" where
  "table_of_uri uri = index_or_undefined (split_on CHR ''/'' uri) 2"

definition read_resource ::
  "'w driver \<Rightarrow> string \<Rightarrow> 'w st \<Rightarrow> (exn + resource_contents list) \<times> 'w st" where
  "read_resource d uri s =
     (case pool_connect d s of
        (Inl e, s1) \<Rightarrow> (Inl e, s1)
      | (Inr h, s1) \<Rightarrow>
          (case client_query d h (JStr sql_columns) [table_of_uri uri] s1 of
             (Inl e, s2) \<Rightarrow> (Inl e, client_release d h s2)
           | (Inr result, s2) \<Rightarrow>
               (Inr [\<lparr>rc_uri = uri, rc_mimeType = ''application/json'',
                       rc_text = json_stringify (rows_of result)\<rparr>],
                client_release d h s2)))"

section \<open>A small scripted database for the closed examples\<close>

text \<open>
  The examples run the executors against this driver. Its world holds whether the server
  can be reached, the catalog's table names, the write statements that took effect, in
  order, and whether the one connection is inside a read-only transaction.
  \<^item> One statement: a text that starts with \<^verbatim>\<open>SELECT\<close> reads; one that starts with
    \<^verbatim>\<open>INSERT\<close> or \<^verbatim>\<open>CREATE\<close> writes, is refused inside a read-only transaction and is
    refused when the same statement has already taken effect; anything else is a syntax
    error.
  \<^item> Several statements, as the server runs a text with semicolons: a text that starts
    with \<^verbatim>\<open>COMMIT; \<close> ends the transaction and then runs the rest; the text
    \<^verbatim>\<open>SELECT 1; SELECT 2\<close> gives two results.
  \<^item> The constructor throws when the connection string is a number.
\<close>

record demo_world =
  reachable :: bool
  catalog :: "string list"
  applied :: "string list"
  read_only :: bool

definition demo_connect :: "demo_world \<Rightarrow> (exn + handle) \<times> demo_world" where
  "demo_connect w =
     (if reachable w then (Inr 0, w) else (Inl (Error ''connection refused''), w))"

fun demo_new :: "jsval \<Rightarrow> demo_world \<Rightarrow> exn option" where
  "demo_new (JObj kvs) w =
     (case lookup ''connectionString'' kvs of
        JNum t \<Rightarrow> Some (TypeError ''str.charAt is not a function'')
      | _ \<Rightarrow> None)"
| "demo_new _ w = None"

definition demo_single :: "string \<Rightarrow> demo_world \<Rightarrow> (exn + query_result) \<times> demo_world" where
  "demo_single q w =
     (if q = sql_begin then (Inr (Result []), w\<lparr>read_only := True\<rparr>)
      else if q = sql_rollback then (Inr (Result []), w\<lparr>read_only := False\<rparr>)
      else if q = sql_list_tables
        then (Inr (Result (map (\<lambda>t. JObj [(''table_name'', JStr t)]) (catalog w))), w)
      else if q = ''SELECT 1 AS one'' then (Inr (Result [JObj [(''one'', JNum ''1'')]]), w)
      else if take 6 q = ''SELECT'' then (Inr (Result []), w)
      else if take 6 q = ''INSERT'' \<or> take 6 q = ''CREATE''
        then (if read_only w
                then (Inl (Error ''cannot execute in a read-only transaction''), w)
              else if q \<in> set (applied w) then (Inl (Error (''duplicate: '' @ q)), w)
              else (Inr (Result []), w\<lparr>applied := applied w @ [q]\<rparr>))
      else (Inl (Error ''syntax error''), w))"

definition demo_statement :: "string \<Rightarrow> demo_world \<Rightarrow> (exn + query_result) \<times> demo_world" where
  "demo_statement q w =
     (if take 8 q = ''COMMIT; '' then demo_single (drop 8 q) (w\<lparr>read_only := False\<rparr>)
      else if q = ''SELECT 1; SELECT 2''
        then (Inr (Results [[JObj [(''?column?'', JNum ''1'')]],
                            [JObj [(''?column?'', JNum ''2'')]]]), w)
      else demo_single q w)"

fun demo_query ::
  "handle \<Rightarrow> jsval \<Rightarrow> jsval list \<Rightarrow> demo_world \<Rightarrow> (exn + query_result) \<times> demo_world" where
  "demo_query h (JStr q) ps w = demo_statement q w"
| "demo_query h _ ps w = (Inl (TypeError ''Client was passed a null or undefined query''), w)"

definition demo_driver :: "demo_world driver" where
  "demo_driver =
     \<lparr>drv_pool_connect = demo_connect,
      drv_client_new = demo_new,
      drv_client_connect = (\<lambda>cfg. demo_connect),
      drv_client_query = demo_query,
      drv_client_release = (\<lambda>h w. w),
      drv_client_end = (\<lambda>h w. (Inr (), w))\<rparr>"

definition demo_up :: demo_world where
  "demo_up = \<lparr>reachable = True, catalog = [''users'', ''a/b''], applied = [], read_only = False\<rparr>"

definition demo_down :: demo_world where
  "demo_down = \<lparr>reachable = False, catalog = [], applied = [], read_only = False\<rparr>"

section \<open>Properties\<close>

lemmas demo_defs = demo_driver_def demo_connect_def demo_statement_def demo_single_def
  demo_up_def demo_down_def sql_begin_def sql_rollback_def sql_list_tables_def sql_columns_def
  client_new_def

lemmas executor_defs = testConnection_def testConnection_try_def executeQuery_pool_def
  executeQuery_try_def executeQuery_client_def executeQuery_client_try_def
  createTable_pool_def createTable_try_def createTable_client_def createTable_client_try_def
  insertData_pool_def insertData_try_def insertData_client_def insertData_client_try_def
  insert_record_def client_config_def query_field_def

subsection \<open>The read-only bracket of executeQuery\<close>






subsection \<open>The branches of the dispatcher\<close>








subsection \<open>What leaves the dispatcher as an exception\<close>
























subsection \<open>Arguments that omit a required field\<close>





















subsection \<open>Closing the client on the error path\<close>

text \<open>
  Claim C4 at a failing input. \<^verbatim>\<open>execute_query\<close> of the per-call build, with a statement
  the database rejects: the client that \<^verbatim>\<open>connect()\<close> opened is never ended
  (\<^verbatim>\<open>client.end()\<close> stands after the query inside \<^verbatim>\<open>try\<close>, and \<^verbatim>\<open>catch\<close> only builds the
  response). The same statement through the pooled build releases its client.
\<close>

theorem executeQuery_client_error_path_leaves_client_open:
  "call_tool PerCall [] demo_driver ''execute_query''
     (JObj [(''url'', JStr ''db''), (''username'', JStr ''u''), (''password'', JStr ''p''),
            (''query'', JStr ''BOGUS'')])
     (demo_up, [])
   = (Inr (failure_response PerCall msg_query_failed (Error ''syntax error'')),
      (demo_up,
       [ClientConnect (JObj [(''connectionString'', JStr ''db''), (''user'', JStr ''u''),
                             (''password'', JStr ''p'')]) (Some 0),
        Query 0 (JStr ''BOGUS'') []]))
   \<and> snd (snd (call_tool PooledFull [] demo_driver ''execute_query''
                  (JObj [(''query'', JStr ''BOGUS'')]) (demo_up, [])))
     = [PoolConnect (Some 0), Query 0 (JStr sql_begin) [], Query 0 (JStr ''BOGUS'') [],
        Query 0 (JStr sql_rollback) [], Release 0]"
  by (simp add: call_tool_def executor_defs demo_defs)

subsection \<open>insertData: a failing record\<close>

lemma insert_loop_success_trace:
  "insert_loop d h tn rs (w, tr) = (None, (w', tr')) \<Longrightarrow>
   \<exists>qs. map_exn (insert_statement tn) rs = Inr qs \<and> tr' = tr @ map (\<lambda>q. Query h (JStr q) []) qs"
proof (induction rs arbitrary: w tr)
  case Nil
  then show ?case by simp
next
  case (Cons r rs)
  from Cons.prems obtain q where q: "insert_statement tn r = Inr q"
    by (cases "insert_statement tn r") (simp_all add: insert_record_def)
  obtain rq wq where dq: "drv_client_query d h (JStr q) [] w = (rq, wq)"
    by (cases "drv_client_query d h (JStr q) [] w")
  from Cons.prems q dq obtain x where x: "rq = Inr x"
    by (cases rq) (simp_all add: insert_record_def)
  from Cons.prems q dq x
  have rest: "insert_loop d h tn rs (wq, tr @ [Query h (JStr q) []]) = (None, (w', tr'))"
    by (simp add: insert_record_def)
  from Cons.IH [OF rest] obtain qs where
    qs: "map_exn (insert_statement tn) rs = Inr qs"
    and tr': "tr' = (tr @ [Query h (JStr q) []]) @ map (\<lambda>q. Query h (JStr q) []) qs"
    by blast
  show ?case using q qs tr' by simp
qed









subsection \<open>insertData: the text of a statement\<close>

lemma join_element_plain:
  "plain v \<Longrightarrow>
   (if nullish (insert_value v) then Inr [] else to_string (insert_value v))
     = Inr (spec_value_text v)"
  by (cases v) simp_all

lemma join_with_plain:
  "list_all plain vs \<Longrightarrow>
   join_with sep (map insert_value vs) = Inr (join_strings sep (map spec_value_text vs))"
proof (induction vs)
  case Nil
  show ?case by simp
next
  case (Cons v vs)
  then have v: "plain v" and vs: "list_all plain vs" by simp_all
  show ?case
  proof (cases vs)
    case Nil
    then show ?thesis using join_element_plain [OF v] by simp
  next
    case (Cons u us)
    with Cons.IH vs
    have ih: "join_with sep (map insert_value (u # us))
                = Inr (join_strings sep (map spec_value_text (u # us)))"
      by simp
    show ?thesis
      unfolding Cons list.map join_with.simps(2) join_element_plain [OF v]
      using ih by simp
  qed
qed

text \<open>
  For a record whose values are strings, numbers and booleans, the statement the loop
  builds is the one the specification words.
\<close>

lemma insert_statement_plain:
  assumes "list_all (\<lambda>kv. plain (snd kv)) kvs"
  shows "insert_statement (JStr tn) (JObj kvs) = Inr (spec_insert_statement tn kvs)"
proof -
  have "list_all plain (map snd kvs)" using assms by (simp add: list_all_iff)
  from join_with_plain [OF this, of "'', ''"]
  show ?thesis by (simp add: insert_statement_def spec_insert_statement_def comp_def)
qed

lemma map_exn_plain_records:
  "list_all (\<lambda>kvs. list_all (\<lambda>kv. plain (snd kv)) kvs) rs \<Longrightarrow>
   map_exn (insert_statement (JStr tn)) (map JObj rs) = Inr (map (spec_insert_statement tn) rs)"
  by (induction rs) (simp_all add: insert_statement_plain)

lemma insert_loop_plain_trace:
  assumes "insert_loop d h (JStr tn) (map JObj rs) (w, tr) = (None, (w', tr'))"
    and "list_all (\<lambda>kvs. list_all (\<lambda>kv. plain (snd kv)) kvs) rs"
  shows "tr' = tr @ map (\<lambda>kvs. Query h (JStr (spec_insert_statement tn kvs)) []) rs"
  using insert_loop_success_trace [OF assms(1)] map_exn_plain_records [OF assms(2), of tn]
  by (auto simp: comp_def)

lemma isError_failure: "isError (failure_response v p e) = Some True"
  by (simp add: failure_response_def)

text \<open>
  For records whose values are strings, numbers and booleans: when \<^verbatim>\<open>insert_data\<close>
  succeeds, the driver calls were the connect, then exactly one
  \<^verbatim>\<open>INSERT INTO tn (keys) VALUES (values)\<close> per record, in the order of the records and all
  on the client the connect gave, then the release (or the end); and the text of the
  response is the confirmation with \<open>tn\<close> and the number of records.
\<close>

lemma insertData_one_statement_per_record:
  assumes tn: "get_prop args ''tableName'' = Inr (JStr tn)"
    and data: "get_prop args ''data'' = Inr (JArr (map JObj rs))"
    and plains: "list_all (\<lambda>kvs. list_all (\<lambda>kv. plain (snd kv)) kvs) rs"
  shows "(drv_pool_connect d w = (Inr h, wc)
          \<and> insertData_pool v d args (w, tr) = (Inr r, (w', tr')) \<and> isError r = None
          \<longrightarrow> tr' = tr @ [PoolConnect (Some h)]
                     @ map (\<lambda>kvs. Query h (JStr (spec_insert_statement tn kvs)) []) rs
                     @ [Release h]
              \<and> content r
                  = [\<lparr>item_type = ''text'',
                      item_text = Some (msg_insert_pre @ tn @ msg_insert_mid
                                        @ nat_to_string (length rs) @ msg_insert_post)\<rparr>])
       \<and> (client_config v cs args = Inr cfg \<and> drv_client_new d cfg w = None
          \<and> drv_client_connect d cfg w = (Inr h, wc)
          \<and> insertData_client v cs d args (w, tr) = (Inr r, (w', tr')) \<and> isError r = None
          \<longrightarrow> tr' = tr @ [ClientConnect cfg (Some h)]
                     @ map (\<lambda>kvs. Query h (JStr (spec_insert_statement tn kvs)) []) rs
                     @ [End h]
              \<and> content r
                  = [\<lparr>item_type = ''text'',
                      item_text = Some (msg_insert_pre @ tn @ msg_insert_mid
                                        @ nat_to_string (length rs) @ msg_insert_post)\<rparr>])"
proof (rule conjI; rule impI)
  assume a: "drv_pool_connect d w = (Inr h, wc)
          \<and> insertData_pool v d args (w, tr) = (Inr r, (w', tr')) \<and> isError r = None"
  obtain res wa ta where
    loop: "insert_loop d h (JStr tn) (map JObj rs) (wc, tr @ [PoolConnect (Some h)])
             = (res, (wa, ta))"
    by (metis prod.exhaust)
  from a tn data loop have res: "res = None"
    by (cases res) (auto simp: insertData_pool_def insertData_try_def isError_failure)
  from insert_loop_plain_trace [OF loop [unfolded res] plains]
  have ta: "ta = tr @ [PoolConnect (Some h)]
                   @ map (\<lambda>kvs. Query h (JStr (spec_insert_statement tn kvs)) []) rs"
    by simp
  from a tn data loop res ta
  show "tr' = tr @ [PoolConnect (Some h)]
                     @ map (\<lambda>kvs. Query h (JStr (spec_insert_statement tn kvs)) []) rs
                     @ [Release h]
              \<and> content r
                  = [\<lparr>item_type = ''text'',
                      item_text = Some (msg_insert_pre @ tn @ msg_insert_mid
                                        @ nat_to_string (length rs) @ msg_insert_post)\<rparr>]"
    by (auto simp: insertData_pool_def insertData_try_def success_response_def)
next
  assume a: "client_config v cs args = Inr cfg \<and> drv_client_new d cfg w = None
          \<and> drv_client_connect d cfg w = (Inr h, wc)
          \<and> insertData_client v cs d args (w, tr) = (Inr r, (w', tr')) \<and> isError r = None"
  obtain res wa ta where
    loop: "insert_loop d h (JStr tn) (map JObj rs) (wc, tr @ [ClientConnect cfg (Some h)])
             = (res, (wa, ta))"
    by (metis prod.exhaust)
  from a tn data loop have res: "res = None"
    by (cases res)
       (auto simp: insertData_client_def insertData_client_try_def client_new_def
          isError_failure)
  from insert_loop_plain_trace [OF loop [unfolded res] plains]
  have ta: "ta = tr @ [ClientConnect cfg (Some h)]
                   @ map (\<lambda>kvs. Query h (JStr (spec_insert_statement tn kvs)) []) rs"
    by simp
  obtain re we where e: "drv_client_end d h wa = (re, we)"
    by (cases "drv_client_end d h wa")
  from a tn data loop res e have re: "\<exists>u. re = Inr u"
    by (cases re)
       (auto simp: insertData_client_def insertData_client_try_def client_new_def
          isError_failure)
  from a tn data loop res ta e re
  show "tr' = tr @ [ClientConnect cfg (Some h)]
                     @ map (\<lambda>kvs. Query h (JStr (spec_insert_statement tn kvs)) []) rs
                     @ [End h]
              \<and> content r
                  = [\<lparr>item_type = ''text'',
                      item_text = Some (msg_insert_pre @ tn @ msg_insert_mid
                                        @ nat_to_string (length rs) @ msg_insert_post)\<rparr>]"
    by (auto simp: insertData_client_def insertData_client_try_def client_new_def
        success_response_def)
qed

text \<open>
  Claim C5 at a failing input. \<^verbatim>\<open>insert_data\<close> with the table \<^verbatim>\<open>t\<close> and the one record
  \<^verbatim>\<open>{id: 2, name: null}\<close>: \<^verbatim>\<open>null\<close> is a scalar that is not a string, so the statement
  the specification words inlines it unquoted, \<^verbatim>\<open>VALUES (2, null)\<close>; but
  \<^verbatim>\<open>Array.prototype.join\<close> writes a \<^verbatim>\<open>null\<close> element as the empty string, and the statement
  built and sent, in the pooled build and in the build configured from the environment,
  is \<^verbatim>\<open>INSERT INTO t (id, name) VALUES (2, )\<close>.
\<close>

theorem insert_data_null_value_written_as_nothing:
  "scalar JNull
   \<and> spec_insert_statement ''t'' [(''id'', JNum ''2''), (''name'', JNull)]
       = ''INSERT INTO t (id, name) VALUES (2, null)''
   \<and> insert_statement (JStr ''t'') (JObj [(''id'', JNum ''2''), (''name'', JNull)])
       = Inr ''INSERT INTO t (id, name) VALUES (2, )''
   \<and> snd (snd (call_tool PooledFull ''db'' demo_driver ''insert_data''
                  (JObj [(''tableName'', JStr ''t''),
                         (''data'', JArr [JObj [(''id'', JNum ''2''), (''name'', JNull)]])])
                  (demo_up, [])))
       = [PoolConnect (Some 0), Query 0 (JStr ''INSERT INTO t (id, name) VALUES (2, )'') [],
          Release 0]
   \<and> take 2 (snd (snd (call_tool EnvClient ''db'' demo_driver ''insert_data''
                  (JObj [(''tableName'', JStr ''t''),
                         (''data'', JArr [JObj [(''id'', JNum ''2''), (''name'', JNull)]])])
                  (demo_up, []))))
       = [ClientConnect (JObj [(''connectionString'', JStr ''db'')]) (Some 0),
          Query 0 (JStr ''INSERT INTO t (id, name) VALUES (2, )'') []]"
  by (simp add: call_tool_def executor_defs demo_defs insert_statement_def
      spec_insert_statement_def)

subsection \<open>createTable: the statement\<close>

lemma column_definition_named:
  "column_named col nt \<Longrightarrow> column_definition col = Inr (fst nt @ '' '' @ snd nt)"
  by (simp add: column_named_def column_definition_def)

lemma column_definitions_named:
  "list_all2 column_named cols nts \<Longrightarrow>
   map_exn column_definition cols = Inr (map (\<lambda>nt. fst nt @ '' '' @ snd nt) nts)"
  by (induction cols nts rule: list_all2_induct) (simp_all add: column_definition_named)

lemma create_table_statement_named:
  "list_all2 column_named cols nts \<Longrightarrow>
   create_table_statement (JStr tn) (JArr cols) = Inr (spec_create_table tn nts)"
  by (simp add: create_table_statement_def spec_create_table_def column_definitions_named)

text \<open>
  Claim C7. \<^verbatim>\<open>create_table\<close> with a table name \<open>tn\<close> and column objects whose names and
  types are the strings \<open>nts\<close>: the statement built is exactly
  \<^verbatim>\<open>CREATE TABLE tn (n1 t1, n2 t2, ...)\<close>, with the table name, the column names and the
  types put in as they are; it is the one statement sent, on the client the connect gave;
  and when the database accepts it the response has no error flag and its one text is the
  confirmation that names \<open>tn\<close>: the fixed text before the name, \<open>tn\<close>, the fixed text
  after it. This holds for the pooled builds and for the client-per-call builds.
\<close>

theorem createTable_statement_verbatim:
  assumes tn: "get_prop args ''tableName'' = Inr (JStr tn)"
    and cols: "get_prop args ''columns'' = Inr (JArr cols)"
    and named: "list_all2 column_named cols nts"
  shows "create_table_statement (JStr tn) (JArr cols) = Inr (spec_create_table tn nts)
       \<and> (drv_pool_connect d w = (Inr h, wc)
            \<and> drv_client_query d h (JStr (spec_create_table tn nts)) [] wc = (Inr res, wq)
          \<longrightarrow> createTable_pool v d args (w, tr)
                = (Inr \<lparr>content =
                           [\<lparr>item_type = ''text'',
                             item_text = Some (msg_table_pre @ tn @ msg_table_post)\<rparr>],
                         isError = None,
                         meta = (if v = PooledQuery then None else Some (JObj []))\<rparr>,
                   (drv_client_release d h wq,
                    tr @ [PoolConnect (Some h), Query h (JStr (spec_create_table tn nts)) [],
                          Release h])))
       \<and> (client_config v cs args = Inr cfg \<and> drv_client_new d cfg w = None
            \<and> drv_client_connect d cfg w = (Inr h, wc)
            \<and> drv_client_query d h (JStr (spec_create_table tn nts)) [] wc = (Inr res, wq)
            \<and> drv_client_end d h wq = (Inr u, we)
          \<longrightarrow> createTable_client v cs d args (w, tr)
                = (Inr \<lparr>content =
                           [\<lparr>item_type = ''text'',
                             item_text = Some (msg_table_pre @ tn @ msg_table_post)\<rparr>],
                         isError = None,
                         meta = (if v = PooledQuery then None else Some (JObj []))\<rparr>,
                   (we, tr @ [ClientConnect cfg (Some h),
                              Query h (JStr (spec_create_table tn nts)) [], End h])))"
  using tn cols create_table_statement_named [OF named, of tn]
  by (simp add: createTable_pool_def createTable_try_def createTable_client_def
      createTable_client_try_def client_new_def success_response_def response_meta_def)

text \<open>
  The theorem on the scripted database, through the pooled build and through the per-call
  build; the second column object lists its type before its name.
\<close>

theorem createTable_statement_verbatim_witness:
  "create_table_statement (JStr ''t1'')
     (JArr [JObj [(''name'', JStr ''id''), (''type'', JStr ''integer'')],
            JObj [(''type'', JStr ''text''), (''name'', JStr ''label'')]])
     = Inr ''CREATE TABLE t1 (id integer, label text)''
   \<and> createTable_pool PooledFull demo_driver
       (JObj [(''url'', JStr ''db''), (''username'', JStr ''u''), (''password'', JStr ''p''),
              (''tableName'', JStr ''t1''),
              (''columns'', JArr [JObj [(''name'', JStr ''id''), (''type'', JStr ''integer'')],
                                  JObj [(''type'', JStr ''text''), (''name'', JStr ''label'')]])])
       (demo_up, [])
     = (Inr \<lparr>content = [\<lparr>item_type = ''text'',
                            item_text = Some (msg_table_pre @ ''t1'' @ msg_table_post)\<rparr>],
              isError = None, meta = Some (JObj [])\<rparr>,
        (demo_up\<lparr>applied := [''CREATE TABLE t1 (id integer, label text)'']\<rparr>,
         [PoolConnect (Some 0), Query 0 (JStr ''CREATE TABLE t1 (id integer, label text)'') [],
          Release 0]))
   \<and> createTable_client PerCall [] demo_driver
       (JObj [(''url'', JStr ''db''), (''username'', JStr ''u''), (''password'', JStr ''p''),
              (''tableName'', JStr ''t1''),
              (''columns'', JArr [JObj [(''name'', JStr ''id''), (''type'', JStr ''integer'')],
                                  JObj [(''type'', JStr ''text''), (''name'', JStr ''label'')]])])
       (demo_up, [])
     = (Inr \<lparr>content = [\<lparr>item_type = ''text'',
                            item_text = Some (msg_table_pre @ ''t1'' @ msg_table_post)\<rparr>],
              isError = None, meta = Some (JObj [])\<rparr>,
        (demo_up\<lparr>applied := [''CREATE TABLE t1 (id integer, label text)'']\<rparr>,
         [ClientConnect (JObj [(''connectionString'', JStr ''db''), (''user'', JStr ''u''),
                               (''password'', JStr ''p'')]) (Some 0),
          Query 0 (JStr ''CREATE TABLE t1 (id integer, label text)'') [], End 0]))"
proof -
  let ?cols = "[JObj [(''name'', JStr ''id''), (''type'', JStr ''integer'')],
                JObj [(''type'', JStr ''text''), (''name'', JStr ''label'')]]"
  let ?args = "JObj [(''url'', JStr ''db''), (''username'', JStr ''u''), (''password'', JStr ''p''),
                     (''tableName'', JStr ''t1''), (''columns'', JArr ?cols)]"
  let ?nts = "[(''id'', ''integer''), (''label'', ''text'')]"
  let ?q = "''CREATE TABLE t1 (id integer, label text)''"
  let ?cfg = "JObj [(''connectionString'', JStr ''db''), (''user'', JStr ''u''),
                    (''password'', JStr ''p'')]"
  have tn: "get_prop ?args ''tableName'' = Inr (JStr ''t1'')" by simp
  have cols: "get_prop ?args ''columns'' = Inr (JArr ?cols)" by simp
  have named: "list_all2 column_named ?cols ?nts" by (simp add: column_named_def)
  have stmt: "spec_create_table ''t1'' ?nts = ?q" by (simp add: spec_create_table_def)
  have conn: "drv_pool_connect demo_driver demo_up = (Inr 0, demo_up)"
    by (simp add: demo_defs)
  have cfg: "client_config PerCall [] ?args = Inr ?cfg" by (simp add: client_config_def)
  have new: "drv_client_new demo_driver ?cfg demo_up = None"
    by (simp add: demo_defs)
  have cconn: "drv_client_connect demo_driver ?cfg demo_up = (Inr 0, demo_up)"
    by (simp add: demo_defs)
  have query: "drv_client_query demo_driver 0 (JStr ?q) [] demo_up
      = (Inr (Result []), demo_up\<lparr>applied := [?q]\<rparr>)"
    by (simp add: demo_defs)
  have fin: "drv_client_end demo_driver 0 (demo_up\<lparr>applied := [?q]\<rparr>)
      = (Inr (), demo_up\<lparr>applied := [?q]\<rparr>)"
    "drv_client_release demo_driver 0 (demo_up\<lparr>applied := [?q]\<rparr>)
      = demo_up\<lparr>applied := [?q]\<rparr>"
    by (simp_all add: demo_driver_def)
  note inst = createTable_statement_verbatim [OF tn cols named, unfolded stmt]
  from inst [where d = demo_driver and w = demo_up and h = 0 and wc = demo_up
      and v = PooledFull and tr = "[]"] conn query fin
  have a: "create_table_statement (JStr ''t1'') (JArr ?cols) = Inr ?q"
    and b: "createTable_pool PooledFull demo_driver ?args (demo_up, [])
     = (Inr \<lparr>content = [\<lparr>item_type = ''text'',
                            item_text = Some (msg_table_pre @ ''t1'' @ msg_table_post)\<rparr>],
              isError = None, meta = Some (JObj [])\<rparr>,
        (demo_up\<lparr>applied := [?q]\<rparr>,
         [PoolConnect (Some 0), Query 0 (JStr ?q) [], Release 0]))"
    by simp_all
  from inst [where d = demo_driver and w = demo_up and h = 0 and wc = demo_up
      and v = PerCall and cs = "[]" and cfg = "?cfg" and tr = "[]"] cfg new cconn query fin
  have c: "createTable_client PerCall [] demo_driver ?args (demo_up, [])
     = (Inr \<lparr>content = [\<lparr>item_type = ''text'',
                            item_text = Some (msg_table_pre @ ''t1'' @ msg_table_post)\<rparr>],
              isError = None, meta = Some (JObj [])\<rparr>,
        (demo_up\<lparr>applied := [?q]\<rparr>,
         [ClientConnect ?cfg (Some 0), Query 0 (JStr ?q) [], End 0]))"
    by simp
  show ?thesis by (rule conjI [OF a conjI [OF b c]])
qed

subsection \<open>Resources: from the listing to the read\<close>

lemma split_on_segment:
  "c \<notin> set t \<Longrightarrow> split_on c (t @ c # rest) = t # split_on c rest"
  by (induction t) auto

lemma table_of_uri_roundtrip:
  assumes "CHR ''/'' \<notin> set t"
  shows "table_of_uri (res_uri (descriptor t)) = JStr t"
proof -
  have a: "split_on CHR ''/'' (''postgres:'' @ CHR ''/'' # (CHR ''/'' # t @ ''/schema''))
        = ''postgres:'' # split_on CHR ''/'' (CHR ''/'' # t @ ''/schema'')"
    by (rule split_on_segment) simp
  have b: "split_on CHR ''/'' (t @ CHR ''/'' # ''schema'') = t # split_on CHR ''/'' ''schema''"
    by (rule split_on_segment) (rule assms)
  have "split_on CHR ''/'' (''postgres://'' @ t @ ''/schema'')
        = [''postgres:'', [], t, ''schema'']"
    using a b by simp
  then show ?thesis by (simp add: descriptor_def table_of_uri_def index_or_undefined_def)
qed

lemma resources_of_rows:
  "list_all2 row_of_table rows ts \<Longrightarrow> map_exn resource_of_row rows = Inr (map descriptor ts)"
  by (induction rows ts rule: list_all2_induct)
     (simp_all add: row_of_table_def resource_of_row_def descriptor_def)

text \<open>
  Claim C8, as amended. For the table names \<open>ts\<close> the catalog query returns,
  \<^verbatim>\<open>list_resources\<close> gives exactly one descriptor per name, in the catalog's order, with
  the URI \<^verbatim>\<open>postgres://<t>/schema\<close> and the MIME type \<^verbatim>\<open>application/json\<close>; for a name that
  contains no \<^verbatim>\<open>/\<close>, the third segment of that URI is the name again; and
  \<^verbatim>\<open>read_resource\<close> queries the columns of the third segment of the URI it is given.
\<close>

theorem resource_uri_roundtrip:
  "(drv_pool_connect d w = (Inr h, wc)
      \<and> drv_client_query d h (JStr sql_list_tables) [] wc = (Inr (Result rows), wq)
      \<and> list_all2 row_of_table rows ts
    \<longrightarrow> list_resources d (w, tr)
          = (Inr (map descriptor ts),
             (drv_client_release d h wq,
              tr @ [PoolConnect (Some h), Query h (JStr sql_list_tables) [], Release h])))
   \<and> (CHR ''/'' \<notin> set t \<longrightarrow> table_of_uri (res_uri (descriptor t)) = JStr t)
   \<and> (drv_pool_connect d w = (Inr h, wc) \<longrightarrow>
        snd (snd (read_resource d uri (w, tr)))
          = tr @ [PoolConnect (Some h), Query h (JStr sql_columns) [table_of_uri uri],
                  Release h])"
proof (intro conjI impI)
  assume "drv_pool_connect d w = (Inr h, wc)
      \<and> drv_client_query d h (JStr sql_list_tables) [] wc = (Inr (Result rows), wq)
      \<and> list_all2 row_of_table rows ts"
  then show "list_resources d (w, tr)
          = (Inr (map descriptor ts),
             (drv_client_release d h wq,
              tr @ [PoolConnect (Some h), Query h (JStr sql_list_tables) [], Release h]))"
    by (simp add: list_resources_def resources_of_rows)
next
  assume "CHR ''/'' \<notin> set t"
  then show "table_of_uri (res_uri (descriptor t)) = JStr t"
    by (rule table_of_uri_roundtrip)
next
  assume conn: "drv_pool_connect d w = (Inr h, wc)"
  obtain rq wq' where q: "drv_client_query d h (JStr sql_columns) [table_of_uri uri] wc = (rq, wq')"
    by (cases "drv_client_query d h (JStr sql_columns) [table_of_uri uri] wc")
  show "snd (snd (read_resource d uri (w, tr)))
          = tr @ [PoolConnect (Some h), Query h (JStr sql_columns) [table_of_uri uri],
                  Release h]"
    using conn q by (cases rq) (simp_all add: read_resource_def)
qed

text \<open>The theorem on the scripted database, for the table \<^verbatim>\<open>users\<close>.\<close>

theorem resource_uri_roundtrip_witness:
  "list_resources demo_driver (demo_up, [])
     = (Inr (map descriptor [''users'', ''a/b'']),
        (demo_up, [PoolConnect (Some 0), Query 0 (JStr sql_list_tables) [], Release 0]))
   \<and> table_of_uri (res_uri (descriptor ''users'')) = JStr ''users''
   \<and> snd (snd (read_resource demo_driver (res_uri (descriptor ''users'')) (demo_up, [])))
     = [PoolConnect (Some 0),
        Query 0 (JStr sql_columns) [table_of_uri (res_uri (descriptor ''users''))], Release 0]"
proof -
  have conn: "drv_pool_connect demo_driver demo_up = (Inr 0, demo_up)"
    by (simp add: demo_defs)
  have listing: "drv_client_query demo_driver 0 (JStr sql_list_tables) [] demo_up
      = (Inr (Result [JObj [(''table_name'', JStr ''users'')],
                      JObj [(''table_name'', JStr ''a/b'')]]),
         demo_up)"
    by (simp add: demo_driver_def demo_statement_def demo_single_def demo_up_def sql_begin_def
        sql_rollback_def sql_list_tables_def)
  have rows: "list_all2 row_of_table
      [JObj [(''table_name'', JStr ''users'')], JObj [(''table_name'', JStr ''a/b'')]]
      [''users'', ''a/b'']"
    by (simp add: row_of_table_def)
  have rel: "drv_client_release demo_driver 0 demo_up = demo_up"
    by (simp add: demo_driver_def)
  have noslash: "CHR ''/'' \<notin> set ''users''" by simp
  note inst = resource_uri_roundtrip [where d = demo_driver and w = demo_up and h = 0
      and wc = demo_up and wq = demo_up and tr = "[]" and ts = "[''users'', ''a/b'']"
      and t = "''users''" and uri = "res_uri (descriptor ''users'')"
      and rows = "[JObj [(''table_name'', JStr ''users'')], JObj [(''table_name'', JStr ''a/b'')]]"]
  from inst conn listing rows rel noslash show ?thesis by simp
qed

text \<open>
  The claim as stated fails for a table name with a \<^verbatim>\<open>/\<close> in it: the table \<^verbatim>\<open>a/b\<close> is listed
  as \<^verbatim>\<open>postgres://a/b/schema\<close>, and reading that URI asks for the columns of the
  table \<^verbatim>\<open>a\<close>.
\<close>

theorem resource_uri_with_slash_reads_other_table:
  "fst (list_resources demo_driver (demo_up, [])) = Inr [descriptor ''users'', descriptor ''a/b'']
   \<and> res_uri (descriptor ''a/b'') = ''postgres://a/b/schema''
   \<and> table_of_uri ''postgres://a/b/schema'' = JStr ''a''
   \<and> snd (snd (read_resource demo_driver ''postgres://a/b/schema'' (demo_up, [])))
      = [PoolConnect (Some 0), Query 0 (JStr sql_columns) [JStr ''a''], Release 0]"
  by (simp add: list_resources_def read_resource_def resource_of_row_def descriptor_def
      table_of_uri_def index_or_undefined_def demo_driver_def demo_connect_def
      demo_statement_def demo_single_def demo_up_def sql_begin_def sql_rollback_def
      sql_list_tables_def sql_columns_def)

subsection \<open>executeQuery: the text of a successful query\<close>

lemma json_elements_map: "json_elements ind xs = map (json_value ind) xs"
  by (induction xs) simp_all

text \<open>
  When the statement gives one result, the text is \<^verbatim>\<open>JSON.stringify(rows, null, 2)\<close>: the
  rows between brackets, in the order the database returned them, indented by two spaces.
\<close>

lemma executeQuery_single_result_text:
  assumes args: "get_prop args (query_field v) = Inr q"
    and conn: "drv_pool_connect d w = (Inr h, wc)"
    and started: "drv_client_query d h (JStr sql_begin) [] wc = (Inr b, wb)"
    and query: "drv_client_query d h q [] wb = (Inr (Result rows), wq)"
  shows "fst (executeQuery_pool v d args (w, tr))
           = Inr \<lparr>content =
                    [\<lparr>item_type = ''text'',
                      item_text = Some
                        (if rows = [] then ''[]''
                         else ''['' @ newline @ ''  ''
                              @ join_strings ('','' @ newline @ ''  '')
                                  (map (json_value ''  '') rows)
                              @ newline @ '']'')\<rparr>],
                  isError = None,
                  meta = (if v = PooledQuery then None else Some (JObj []))\<rparr>"
proof -
  obtain rr wr where r: "drv_client_query d h (JStr sql_rollback) [] wq = (rr, wr)"
    by (cases "drv_client_query d h (JStr sql_rollback) [] wq")
  show ?thesis
    using args conn started query r
    by (simp add: executeQuery_pool_def executeQuery_try_def success_response_def
        response_meta_def json_stringify_def json_elements_map)
qed

lemma execute_query_select_one:
  "fst (call_tool PooledQuery ''db'' demo_driver ''query''
          (JObj [(''sql'', JStr ''SELECT 1 AS one'')]) (demo_up, []))
     = Inr \<lparr>content =
              [\<lparr>item_type = ''text'',
                item_text = Some (''['' @ newline @ ''  {'' @ newline @ ''    '' @ [CHR 0x22]
                                  @ ''one'' @ [CHR 0x22] @ '': 1'' @ newline @ ''  }''
                                  @ newline @ '']'')\<rparr>],
            isError = None, meta = None\<rparr>"
  by (simp add: call_tool_def executor_defs demo_defs success_response_def response_meta_def
      json_stringify_def json_quote_def json_escape_char_def newline_def non_finite_def)

text \<open>
  Claim C9 at a failing input. \<^verbatim>\<open>execute_query\<close> of the pooled build with the text
  \<^verbatim>\<open>SELECT 1; SELECT 2\<close>: both statements succeed and the driver resolves to an array of
  two results, which has no \<^verbatim>\<open>rows\<close> property; \<^verbatim>\<open>JSON.stringify(undefined, null, 2)\<close> is
  \<^verbatim>\<open>undefined\<close>, and the response, which has no error flag, carries no text at all instead
  of the rows serialized as JSON.
\<close>

theorem execute_query_several_statements_no_text:
  "call_tool PooledFull ''db'' demo_driver ''execute_query''
     (JObj [(''query'', JStr ''SELECT 1; SELECT 2'')]) (demo_up, [])
   = (Inr \<lparr>content = [\<lparr>item_type = ''text'', item_text = None\<rparr>],
            isError = None, meta = Some (JObj [])\<rparr>,
      (demo_up,
       [PoolConnect (Some 0), Query 0 (JStr sql_begin) [],
        Query 0 (JStr ''SELECT 1; SELECT 2'') [], Query 0 (JStr sql_rollback) [],
        Release 0]))
   \<and> drv_client_query demo_driver 0 (JStr ''SELECT 1; SELECT 2'') []
        (demo_up\<lparr>read_only := True\<rparr>)
     = (Inr (Results [[JObj [(''?column?'', JNum ''1'')]], [JObj [(''?column?'', JNum ''2'')]]]),
        demo_up\<lparr>read_only := True\<rparr>)"
  by (simp add: call_tool_def executor_defs demo_defs success_response_def response_meta_def
      json_stringify_def)

subsection \<open>The shape of every response\<close>

lemma single_text_success: "single_text (success_response v t)"
  by (simp add: single_text_def success_response_def)

lemma single_text_failure: "single_text (failure_response v p e)"
  by (simp add: single_text_def failure_response_def)

lemmas single_text_intros = single_text_success single_text_failure

lemma testConnection_try_single: "single_text (fst (testConnection_try v d cfg s))"
  by (auto simp: testConnection_try_def single_text_intros split: sum.splits prod.splits)

lemma executeQuery_try_single: "single_text (fst (executeQuery_try v d h q s))"
  by (auto simp: executeQuery_try_def single_text_intros split: sum.splits prod.splits)

lemma executeQuery_client_try_single:
  "single_text (fst (executeQuery_client_try v d cfg q s))"
  by (auto simp: executeQuery_client_try_def single_text_intros split: sum.splits prod.splits)

lemma createTable_try_single: "single_text (fst (createTable_try v d h tn cols s))"
  by (auto simp: createTable_try_def single_text_intros split: sum.splits prod.splits)

lemma createTable_client_try_single:
  "single_text (fst (createTable_client_try v d cfg tn cols s))"
  by (auto simp: createTable_client_try_def single_text_intros split: sum.splits prod.splits)

lemma insertData_try_single: "single_text (fst (insertData_try v d h tn data s))"
  by (auto simp: insertData_try_def single_text_intros
      split: sum.splits prod.splits option.splits)

lemma insertData_client_try_single:
  "single_text (fst (insertData_client_try v d cfg tn data s))"
  by (auto simp: insertData_client_try_def single_text_intros
      split: sum.splits prod.splits option.splits)

lemma testConnection_single: "fst (testConnection v cs d args s) = Inr r \<Longrightarrow> single_text r"
  apply (auto simp: testConnection_def split: sum.splits prod.splits option.splits)
  by (metis testConnection_try_single fst_conv)

lemma executeQuery_pool_single:
  "fst (executeQuery_pool v d args s) = Inr r \<Longrightarrow> single_text r"
  apply (auto simp: executeQuery_pool_def split: sum.splits prod.splits)
  by (metis executeQuery_try_single fst_conv)

lemma executeQuery_client_single:
  "fst (executeQuery_client v cs d args s) = Inr r \<Longrightarrow> single_text r"
  apply (auto simp: executeQuery_client_def split: sum.splits prod.splits option.splits)
  by (metis executeQuery_client_try_single fst_conv)

lemma createTable_pool_single:
  "fst (createTable_pool v d args s) = Inr r \<Longrightarrow> single_text r"
  apply (auto simp: createTable_pool_def split: sum.splits prod.splits)
  by (metis createTable_try_single fst_conv)

lemma createTable_client_single:
  "fst (createTable_client v cs d args s) = Inr r \<Longrightarrow> single_text r"
  apply (auto simp: createTable_client_def split: sum.splits prod.splits option.splits)
  by (metis createTable_client_try_single fst_conv)

lemma insertData_pool_single:
  "fst (insertData_pool v d args s) = Inr r \<Longrightarrow> single_text r"
  apply (auto simp: insertData_pool_def split: sum.splits prod.splits)
  by (metis insertData_try_single fst_conv)

lemma insertData_client_single:
  "fst (insertData_client v cs d args s) = Inr r \<Longrightarrow> single_text r"
  apply (auto simp: insertData_client_def split: sum.splits prod.splits option.splits)
  by (metis insertData_client_try_single fst_conv)

lemma rethrow_Inr: "fst (rethrow x) = Inr r \<Longrightarrow> fst x = Inr r"
  by (cases x; cases "fst x") auto

text \<open>
  Claim C10. In every build, whatever tool the dispatcher runs and whatever the driver
  does, a call that returns a ToolResponse (on the success path and on every caught
  failure path of \<^verbatim>\<open>testConnection\<close>, \<^verbatim>\<open>executeQuery\<close>, \<^verbatim>\<open>createTable\<close> and \<^verbatim>\<open>insertData\<close>)
  returns one whose content has exactly one item, and that item's type is \<^verbatim>\<open>text\<close>.
\<close>

theorem tool_response_has_one_text_item:
  "fst (call_tool v cs d name args s) = Inr r \<Longrightarrow> single_text r"
proof -
  assume a: "fst (call_tool v cs d name args s) = Inr r"
  show ?thesis
    using a
    by (cases v)
       (auto simp: call_tool_def split: if_splits
          dest!: rethrow_Inr
          dest: testConnection_single executeQuery_pool_single executeQuery_client_single
            createTable_pool_single createTable_client_single insertData_pool_single
            insertData_client_single)
qed

text \<open>
  The theorem at a write sent through \<^verbatim>\<open>execute_query\<close> of the pooled build, which the
  scripted database refuses: the error response is a single text item.
\<close>

theorem tool_response_has_one_text_item_witness:
  "fst (call_tool PooledFull ''db'' demo_driver ''execute_query''
          (JObj [(''query'', JStr ''INSERT INTO t (a) VALUES (1)'')]) (demo_up, []))
     = Inr (failure_response PooledFull msg_query_failed
              (Error ''cannot execute in a read-only transaction''))
   \<and> single_text (failure_response PooledFull msg_query_failed
                    (Error ''cannot execute in a read-only transaction''))"
proof -
  have run: "fst (call_tool PooledFull ''db'' demo_driver ''execute_query''
                    (JObj [(''query'', JStr ''INSERT INTO t (a) VALUES (1)'')]) (demo_up, []))
             = Inr (failure_response PooledFull msg_query_failed
                      (Error ''cannot execute in a read-only transaction''))"
    by (simp add: call_tool_def executor_defs demo_defs)
  from tool_response_has_one_text_item [OF run] run show ?thesis by simp
qed

end
